theory Spec2Isabelle
  imports Complex_Main
begin

section \<open>JavaScript strings and plain objects\<close>

text \<open>
  A \<open>char\<close> stands for one UTF-16 code unit below 256 (the Latin-1 range); \<open>length\<close>
  is then the \<open>.length\<close> of the source string. Numbers are modelled as reals: the
  functions embedded below only copy numbers and compare them, they never compute
  with them.
\<close>

text \<open>\<open>String.prototype.replace('@', '')\<close>: a string pattern replaces the first
  occurrence only, wherever it stands.\<close>

fun replaceAt :: "string \<Rightarrow> string" where
  "replaceAt [] = []"
| "replaceAt (c # cs) = (if c = CHR ''@'' then cs else c # replaceAt cs)"

text \<open>The white space and line terminators of ECMAScript below code unit 256:
  TAB, LF, VT, FF, CR, SP and NBSP.\<close>

definition isWhiteSpace :: "char \<Rightarrow> bool" where
  "isWhiteSpace c = (of_char c \<in> {9, 10, 11, 12, 13, 32, 160 :: nat})"

definition trim :: "string \<Rightarrow> string" where
  "trim s = rev (dropWhile isWhiteSpace (rev (dropWhile isWhiteSpace s)))"

text \<open>\<open>toLowerCase\<close> on Latin-1: A-Z and the accented capitals U+00C0..U+00DE
  (without the multiplication sign U+00D7) move up by 32.\<close>

definition lowerChar :: "char \<Rightarrow> char" where
  "lowerChar c =
     (let n = (of_char c :: nat)
      in if (65 \<le> n \<and> n \<le> 90) \<or> (192 \<le> n \<and> n \<le> 222 \<and> n \<noteq> 215)
         then char_of (n + 32) else c)"

definition toLowerCase :: "string \<Rightarrow> string" where
  "toLowerCase s = map lowerChar s"

definition startsWithAt :: "string \<Rightarrow> bool" where
  "startsWithAt s = (case s of [] \<Rightarrow> False | c # _ \<Rightarrow> c = CHR ''@'')"

text \<open>
  \<open>MOCK_JUNGLE_DB\<close> and the parsed ledger are plain objects used as dictionaries.
  A property read \<open>obj[key]\<close> that finds no own property continues on
  \<open>Object.prototype\<close>, whose property names are listed here; a key built with
  \<open>toLowerCase\<close> can only hit \<open>constructor\<close> and \<open>__proto__\<close>.
\<close>

definition objectPrototypeKeys :: "string list" where
  "objectPrototypeKeys =
     [''constructor'', ''__defineGetter__'', ''__defineSetter__'', ''hasOwnProperty'',
      ''__lookupGetter__'', ''__lookupSetter__'', ''isPrototypeOf'',
      ''propertyIsEnumerable'', ''toString'', ''valueOf'', ''__proto__'',
      ''toLocaleString'']"

text \<open>The result of \<open>obj[key]\<close>: an own value, an inherited object (truthy, without
  the fields of a row), or \<open>undefined\<close>.\<close>

datatype 'a property = Own 'a | Inherited | Undefined

definition getProperty :: "(string \<rightharpoonup> 'a) \<Rightarrow> string \<Rightarrow> 'a property" where
  "getProperty obj k =
     (case obj k of
        Some v \<Rightarrow> Own v
      | None \<Rightarrow> if k \<in> set objectPrototypeKeys then Inherited else Undefined)"

text \<open>\<open>obj[key] = v\<close> on an object parsed from JSON: an own data property is
  written. The one exception is the key \<open>__proto__\<close> on an object without an own
  property of that name: the assignment then reaches the setter of
  \<open>Object.prototype\<close>, which replaces the prototype and adds no own property, so that
  \<open>JSON.stringify\<close> does not write it.\<close>

definition setProperty :: "(string \<rightharpoonup> 'a) \<Rightarrow> string \<Rightarrow> 'a \<Rightarrow> (string \<rightharpoonup> 'a)" where
  "setProperty obj k v =
     (if k = ''__proto__'' \<and> obj k = None then obj else obj(k \<mapsto> v))"

section \<open>PresaleScreen: data\<close>

text \<open>\<open>SOLANA_ADDRESS_REGEX = /^[1-9A-HJ-NP-Za-km-z]{32,44}$/\<close>.\<close>

definition base58 :: "char \<Rightarrow> bool" where
  "base58 c =
     (c \<in> set ''123456789ABCDEFGHJKLMNPQRSTUVWXYZabcdefghijkmnopqrstuvwxyz'')"

definition SOLANA_ADDRESS_REGEX :: "string \<Rightarrow> bool" where
  "SOLANA_ADDRESS_REGEX w = (32 \<le> length w \<and> length w \<le> 44 \<and> list_all base58 w)"

text \<open>The rows of \<open>MOCK_JUNGLE_DB\<close>: \<open>(wallet, commit)\<close>.\<close>

definition MOCK_JUNGLE_DB :: "string \<rightharpoonup> string \<times> real" where
  "MOCK_JUNGLE_DB =
     [''monky_king'' \<mapsto> (''7xKX99kR7xKX99kR7xKX99kR7xKX99kR7xKX99kR'', 10.0),
      ''degen_ape'' \<mapsto> (''Ape1111111111111111111111111111111111111'', 5.0),
      ''sol_surfer'' \<mapsto> (''Surf222222222222222222222222222222222222'', 2.5),
      ''banana_farmer'' \<mapsto> (''Farm333333333333333333333333333333333333'', 0.8)]"

datatype PresaleView = VERIFY | CONTRIBUTE

text \<open>The fields of \<open>UserData\<close> that PresaleScreen reads and writes. A falsy
  \<open>actualCommit\<close> (0, or an absent field) is the number 0 here.\<close>

record UserData =
  handle :: string
  wallet :: string
  actualCommit :: real

record Submission =
  sub_id :: string
  missionId :: string
  proofUrl :: string
  sub_amount :: real
  sub_status :: string
  timestamp :: int

text \<open>The notifications of the screen, by their message code; \<open>UPLINK_STABLE\<close>
  carries the handle and cap that the message text interpolates.\<close>

datatype notification_message =
    CREDENTIALS_MISSING
  | FORMAT_ERROR
  | SECURITY_WARNING
  | UPLINK_STABLE string real
  | PHASE_END
  | HASH_INVALID
  | TRANSMISSION_COMPLETE

datatype notification_type = ERROR | SUCCESS

fun notificationType :: "notification_message \<Rightarrow> notification_type" where
  "notificationType (UPLINK_STABLE h c) = SUCCESS"
| "notificationType TRANSMISSION_COMPLETE = SUCCESS"
| "notificationType m = ERROR"

text \<open>
  The component state of PresaleScreen (its \<open>useState\<close> cells), the \<open>userData\<close> prop
  that \<open>setUserData\<close> updates, and \<open>ledger\<close>: the value of
  \<open>localStorage[STORAGE_KEY]\<close> after \<open>JSON.parse\<close>, \<open>None\<close> when \<open>getItem\<close> returns null.
\<close>

record PresaleScreen =
  view :: PresaleView
  loginHandle :: string
  loginWallet :: string
  amount :: real
  txHash :: string
  history :: "Submission list"
  notification :: "notification_message option"
  detectedCap :: real
  timeLeft :: string
  userData :: UserData
  ledger :: "(string \<rightharpoonup> Submission list) option"

section \<open>PresaleScreen: handleVerify\<close>

definition normalizeHandle :: "string \<Rightarrow> string" where
  "normalizeHandle h = toLowerCase (trim (replaceAt h))"

text \<open>The state updates of a successful verification (source lines 92 to 103).\<close>

definition verified :: "PresaleScreen \<Rightarrow> string \<Rightarrow> string \<Rightarrow> real \<Rightarrow> PresaleScreen" where
  "verified s h w userCap =
     s\<lparr>detectedCap := userCap,
       amount := userCap,
       userData := (userData s)\<lparr>handle := (if startsWithAt h then h else CHR ''@'' # h),
                                wallet := w,
                                actualCommit := userCap\<rparr>,
       view := CONTRIBUTE,
       notification := Some (UPLINK_STABLE h userCap)\<rparr>"

definition handleVerify :: "PresaleScreen \<Rightarrow> PresaleScreen" where
  "handleVerify s =
     (let h = normalizeHandle (loginHandle s);
          w = trim (loginWallet s)
      in if h = [] \<or> w = [] then s\<lparr>notification := Some CREDENTIALS_MISSING\<rparr>
         else if \<not> SOLANA_ADDRESS_REGEX w then s\<lparr>notification := Some FORMAT_ERROR\<rparr>
         else case getProperty MOCK_JUNGLE_DB h of
                Own (recWallet, commit) \<Rightarrow>
                  if recWallet \<noteq> w then s\<lparr>notification := Some SECURITY_WARNING\<rparr>
                  else verified s h w commit
              | Inherited \<Rightarrow> s\<lparr>notification := Some SECURITY_WARNING\<rparr>
              | Undefined \<Rightarrow>
                  verified s h w
                    (if actualCommit (userData s) \<noteq> 0 then actualCommit (userData s)
                     else 0.15))"

section \<open>PresaleScreen: the countdown timer\<close>

text \<open>
  One run of the interval callback (source lines 36 to 53). \<open>PRESALE_END_TIME\<close> is a
  constant of the constants module and \<open>now\<close> the value of \<open>Date.now()\<close>, both integer
  milliseconds. The components are computed only for \<open>distance \<ge> 0\<close>, where the
  remainder operator of JavaScript is \<open>mod\<close> and \<open>Math.floor\<close> of the quotient is \<open>div\<close>.
\<close>

definition hoursOf :: "int \<Rightarrow> int" where
  "hoursOf distance = (distance mod (1000 * 60 * 60 * 24)) div (1000 * 60 * 60)"

definition minutesOf :: "int \<Rightarrow> int" where
  "minutesOf distance = (distance mod (1000 * 60 * 60)) div (1000 * 60)"

definition secondsOf :: "int \<Rightarrow> int" where
  "secondsOf distance = (distance mod (1000 * 60)) div 1000"

text \<open>\<open>n.toString()\<close> for a non-negative integer, and \<open>padStart(2, '0')\<close>.\<close>

fun digitsOf :: "nat \<Rightarrow> string" where
  "digitsOf n =
     (if n < 10 then [char_of (48 + n)]
      else digitsOf (n div 10) @ [char_of (48 + n mod 10)])"

declare digitsOf.simps [simp del]

definition padStart2 :: "string \<Rightarrow> string" where
  "padStart2 s = replicate (2 - length s) (CHR ''0'') @ s"

definition formatTimeLeft :: "int \<Rightarrow> string" where
  "formatTimeLeft distance =
     padStart2 (digitsOf (nat (hoursOf distance))) @ '':'' @
     padStart2 (digitsOf (nat (minutesOf distance))) @ '':'' @
     padStart2 (digitsOf (nat (secondsOf distance)))"

definition countdownTick :: "int \<Rightarrow> int \<Rightarrow> PresaleScreen \<Rightarrow> PresaleScreen" where
  "countdownTick PRESALE_END_TIME now s =
     (let distance = PRESALE_END_TIME - now
      in if distance < 0 then s\<lparr>timeLeft := ''CLOSED''\<rparr>
         else s\<lparr>timeLeft := formatTimeLeft distance\<rparr>)"

section \<open>PresaleScreen: the ledger\<close>

text \<open>\<open>userData.handle.toLowerCase().replace('@', '')\<close>, the key of both the history
  effect (line 64) and \<open>submitTx\<close> (line 144).\<close>

definition handleKey :: "string \<Rightarrow> string" where
  "handleKey h = replaceAt (toLowerCase h)"

text \<open>
  The effect that loads the history (lines 59 to 68), run on mount and whenever
  \<open>userData.handle\<close> changes: \<open>setHistory(allData[handleKey] || [])\<close>. An own property
  is the stored array, and a key found nowhere gives the empty array. The key is in
  lower case, so the only inherited values it can read are those of \<open>constructor\<close> and
  \<open>__proto__\<close>. The first is the function \<open>Object\<close>, which \<open>setHistory\<close> runs as an
  updater on the previous history: it returns that history, and the cell is unchanged.
  The second is the object \<open>Object.prototype\<close>: the effect raises nothing, but the
  cell then holds a value that is no array, which is the outcome \<open>NotAnArray\<close>.
\<close>

datatype load_outcome = Loaded PresaleScreen | NotAnArray

definition loadHistory :: "PresaleScreen \<Rightarrow> load_outcome" where
  "loadHistory s =
     (if handle (userData s) = [] then Loaded s
      else case ledger s of
             None \<Rightarrow> Loaded s
           | Some allData \<Rightarrow>
               (case getProperty allData (handleKey (handle (userData s))) of
                  Own h \<Rightarrow> Loaded (s\<lparr>history := h\<rparr>)
                | Inherited \<Rightarrow>
                    if handleKey (handle (userData s)) = ''constructor'' then Loaded s
                    else NotAnArray
                | Undefined \<Rightarrow> Loaded (s\<lparr>history := []\<rparr>)))"

text \<open>
  \<open>submitTx\<close> (lines 120 to 150). \<open>uuid\<close> is the value of \<open>crypto.randomUUID()\<close> and
  \<open>now\<close> the value of \<open>Date.now()\<close>; the amount is the current \<open>amount\<close> cell.
\<close>

definition newSubmission :: "string \<Rightarrow> int \<Rightarrow> PresaleScreen \<Rightarrow> Submission" where
  "newSubmission uuid now s =
     \<lparr>sub_id = uuid,
      missionId = ''presale_contribution'',
      proofUrl = txHash s,
      sub_amount = amount s,
      sub_status = ''PENDING'',
      timestamp = now\<rparr>"

definition submitTx :: "string \<Rightarrow> int \<Rightarrow> PresaleScreen \<Rightarrow> PresaleScreen" where
  "submitTx uuid now s =
     (if timeLeft s = ''CLOSED'' then s\<lparr>notification := Some PHASE_END\<rparr>
      else if txHash s = [] \<or> length (txHash s) < 32
      then s\<lparr>notification := Some HASH_INVALID\<rparr>
      else
        let newHistory = newSubmission uuid now s # history s;
            allData = (case ledger s of None \<Rightarrow> Map.empty | Some m \<Rightarrow> m);
            k = handleKey (handle (userData s))
        in s\<lparr>history := newHistory,
             ledger := Some (setProperty allData k newHistory),
             txHash := [],
             notification := Some TRANSMISSION_COMPLETE\<rparr>)"

text \<open>The persisted slice of a key: the own property of the stored object, the empty
  sequence when the store or the key is absent.\<close>

definition ledgerSlice :: "(string \<rightharpoonup> Submission list) option \<Rightarrow> string \<Rightarrow> Submission list" where
  "ledgerSlice l k =
     (case l of None \<Rightarrow> [] | Some m \<Rightarrow> (case m k of None \<Rightarrow> [] | Some h \<Rightarrow> h))"

text \<open>The lower bound of \<open>handleAmountBlur\<close> and of the range input.\<close>

definition minimumContribution :: real where
  "minimumContribution = 0.01"

section \<open>AdminScreen: data\<close>

text \<open>The values a document field can hold. \<open>truthy\<close> is the test made by \<open>||\<close>;
  the only falsy number of the model is 0.\<close>

datatype jsval = JUndefined | JNull | JBool bool | JNum real | JStr string | JObject

fun truthy :: "jsval \<Rightarrow> bool" where
  "truthy JUndefined = False"
| "truthy JNull = False"
| "truthy (JBool b) = b"
| "truthy (JNum n) = (n \<noteq> 0)"
| "truthy (JStr s) = (s \<noteq> [])"
| "truthy JObject = True"

definition orElse :: "jsval \<Rightarrow> jsval \<Rightarrow> jsval" where
  "orElse v d = (if truthy v then v else d)"

text \<open>A document of the snapshot (\<open>d.id\<close>, \<open>d.data()\<close>) and the row built from it,
  \<open>{ id: d.id, ...d.data() }\<close>: a field \<open>id\<close> of the data overrides the document id.\<close>

record QueryDocumentSnapshot =
  doc_id :: string
  doc_data :: "string \<rightharpoonup> jsval"

type_synonym row = "string \<rightharpoonup> jsval"

definition rowOf :: "QueryDocumentSnapshot \<Rightarrow> row" where
  "rowOf d = [''id'' \<mapsto> JStr (doc_id d)] ++ doc_data d"

definition field :: "row \<Rightarrow> string \<Rightarrow> jsval" where
  "field r k = (case r k of None \<Rightarrow> JUndefined | Some v \<Rightarrow> v)"

text \<open>\<open>r.status || 'PENDING'\<close>, the status the screen filters on (line 51) and
  displays (line 156).\<close>

definition statusOf :: "row \<Rightarrow> jsval" where
  "statusOf r = orElse (field r ''status'') (JStr ''PENDING'')"

text \<open>The signed-in user of the auth provider; \<open>email\<close> is \<open>string | null\<close>.\<close>

record User =
  email :: "string option"

record FirestoreError =
  message :: string

text \<open>The component state of AdminScreen. \<open>listening\<close> records whether the effect
  holds a live \<open>onSnapshot\<close> listener (issued and not yet unsubscribed).\<close>

record AdminScreen =
  authUser :: "User option"
  authReady :: bool
  applications :: "row list"
  actionError :: "string option"
  toast :: "string option"
  listening :: bool

section \<open>AdminScreen: access check and subscription\<close>

text \<open>\<open>isAllowed\<close> (lines 30 to 35). \<open>adminEmail\<close> is the value of \<open>getAdminEmail()\<close>,
  a function of the firebase utilities; \<open>None\<close> stands for an absent value.\<close>

definition isAllowed :: "string option \<Rightarrow> User option \<Rightarrow> bool" where
  "isAllowed adminEmail u =
     (case u of
        None \<Rightarrow> False
      | Some usr \<Rightarrow>
          (case email usr of
             None \<Rightarrow> False
           | Some e \<Rightarrow>
               if e = [] then False
               else (case adminEmail of
                       None \<Rightarrow> False
                     | Some a \<Rightarrow>
                         if a = [] then False
                         else toLowerCase e = toLowerCase a)))"

text \<open>The four screens of the render function (lines 83 to 117), in its order.\<close>

datatype AccessGate =
  AUTH_PENDING | UNAUTHENTICATED | AUTHENTICATED_DENIED | AUTHENTICATED_ALLOWED

definition gateOf :: "string option \<Rightarrow> AdminScreen \<Rightarrow> AccessGate" where
  "gateOf adminEmail s =
     (if \<not> authReady s then AUTH_PENDING
      else if authUser s = None then UNAUTHENTICATED
      else if \<not> isAllowed adminEmail (authUser s) then AUTHENTICATED_DENIED
      else AUTHENTICATED_ALLOWED)"

text \<open>The two callbacks handed to \<open>onSnapshot\<close> (lines 45 to 56).\<close>

definition onSnapshotNext :: "QueryDocumentSnapshot list \<Rightarrow> AdminScreen \<Rightarrow> AdminScreen" where
  "onSnapshotNext docs s =
     (let rows = map rowOf docs
      in s\<lparr>actionError := None,
           applications := filter (\<lambda>r. statusOf r = JStr ''PENDING'') rows\<rparr>)"

definition onSnapshotError :: "FirestoreError option \<Rightarrow> AdminScreen \<Rightarrow> AdminScreen" where
  "onSnapshotError err s =
     s\<lparr>applications := [],
       actionError :=
         Some (case err of
                 None \<Rightarrow> ''FIRESTORE_SUBSCRIBE_FAILED''
               | Some e \<Rightarrow>
                   if message e = [] then ''FIRESTORE_SUBSCRIBE_FAILED'' else message e)\<rparr>"

text \<open>
  The subscription effect (lines 37 to 59): the cleanup of the previous run
  unsubscribes, then the body either clears the queue or issues the subscription.
\<close>

definition subscriptionEffect :: "string option \<Rightarrow> AdminScreen \<Rightarrow> AdminScreen" where
  "subscriptionEffect adminEmail s =
     (if \<not> authReady s \<or> \<not> isAllowed adminEmail (authUser s)
      then s\<lparr>applications := [], listening := False\<rparr>
      else s\<lparr>listening := True\<rparr>)"

text \<open>The callback of \<open>onAuthStateChanged\<close> (lines 23 to 26) and the render it
  causes: the effect runs again only when one of its dependencies, \<open>authReady\<close> and
  \<open>isAllowed\<close>, has changed.\<close>

definition authStateChanged :: "string option \<Rightarrow> User option \<Rightarrow> AdminScreen \<Rightarrow> AdminScreen" where
  "authStateChanged adminEmail u s =
     (let s' = s\<lparr>authUser := u, authReady := True\<rparr>
      in if authReady s' = authReady s
            \<and> isAllowed adminEmail (authUser s') = isAllowed adminEmail (authUser s)
         then s' else subscriptionEffect adminEmail s')"

text \<open>\<open>updateStatus\<close> (lines 61 to 77) with the outcome of \<open>updateDoc\<close>: \<open>None\<close> when
  the write succeeded, the message of the thrown error otherwise.\<close>

definition updateStatus :: "string \<Rightarrow> string option \<Rightarrow> AdminScreen \<Rightarrow> AdminScreen" where
  "updateStatus status outcome s =
     (case outcome of
        None \<Rightarrow>
          if status = ''APPROVED''
          then s\<lparr>actionError := None,
                 toast := Some ''APPROVED: Application status updated.''\<rparr>
          else s\<lparr>actionError := None\<rparr>
      | Some m \<Rightarrow> s\<lparr>actionError := Some (if m = [] then ''UPDATE_FAILED'' else m)\<rparr>)"

text \<open>The events the mounted component reacts to. A snapshot or an error is
  delivered only to a live listener.\<close>

datatype event =
    AuthStateChanged "User option"
  | SnapshotNext "QueryDocumentSnapshot list"
  | SnapshotError "FirestoreError option"
  | UpdateStatus string "string option"
  | ToastTimeout

fun step :: "string option \<Rightarrow> AdminScreen \<Rightarrow> event \<Rightarrow> AdminScreen" where
  "step adminEmail s (AuthStateChanged u) = authStateChanged adminEmail u s"
| "step adminEmail s (SnapshotNext docs) =
     (if listening s then onSnapshotNext docs s else s)"
| "step adminEmail s (SnapshotError err) =
     (if listening s then onSnapshotError err s else s)"
| "step adminEmail s (UpdateStatus status outcome) = updateStatus status outcome s"
| "step adminEmail s ToastTimeout = s\<lparr>toast := None\<rparr>"

text \<open>The state after mounting: the initial cells (lines 16 to 20) and the first run
  of the effect.\<close>

definition mounted :: "string option \<Rightarrow> AdminScreen" where
  "mounted adminEmail =
     subscriptionEffect adminEmail
       \<lparr>authUser = None, authReady = False, applications = [], actionError = None,
        toast = None, listening = False\<rparr>"

definition run :: "string option \<Rightarrow> event list \<Rightarrow> AdminScreen" where
  "run adminEmail es = foldl (step adminEmail) (mounted adminEmail) es"

text \<open>What the subscription effect maintains: a listener is live exactly when the
  session is resolved and allowed, and otherwise the queue cell is empty.\<close>

definition subscriptionInvariant :: "string option \<Rightarrow> AdminScreen \<Rightarrow> bool" where
  "subscriptionInvariant adminEmail s =
     ((listening s = (authReady s \<and> isAllowed adminEmail (authUser s)))
      \<and> (authReady s \<and> isAllowed adminEmail (authUser s) \<or> applications s = []))"

section \<open>Concrete states and inputs\<close>

definition exampleAdminEmail :: "string option" where
  "exampleAdminEmail = Some ''admin@monky.fun''"

definition exampleDocs :: "QueryDocumentSnapshot list" where
  "exampleDocs =
     [\<lparr>doc_id = ''a1'', doc_data = [''status'' \<mapsto> JStr ''PENDING'']\<rparr>,
      \<lparr>doc_id = ''a2'', doc_data = [''status'' \<mapsto> JStr ''APPROVED'']\<rparr>,
      \<lparr>doc_id = ''a3'', doc_data = [''twitterName'' \<mapsto> JStr ''bob'']\<rparr>,
      \<lparr>doc_id = ''a4'', doc_data = [''status'' \<mapsto> JStr ''REJECTED'']\<rparr>]"

text \<open>A window of one document whose status field is null.\<close>

definition exampleNullStatus :: "QueryDocumentSnapshot list" where
  "exampleNullStatus = [\<lparr>doc_id = ''a5'', doc_data = [''status'' \<mapsto> JNull]\<rparr>]"

definition exampleAdminLogin :: "event list" where
  "exampleAdminLogin =
     [AuthStateChanged (Some \<lparr>email = Some ''Admin@Monky.fun''\<rparr>), SnapshotNext exampleDocs]"

definition exampleListening :: AdminScreen where
  "exampleListening =
     \<lparr>authUser = Some \<lparr>email = Some ''Admin@Monky.fun''\<rparr>, authReady = True,
      applications = [rowOf \<lparr>doc_id = ''a0'', doc_data = Map.empty\<rparr>], actionError = None,
      toast = None, listening = True\<rparr>"

definition exampleWallet :: string where
  "exampleWallet = ''7xKX99kR7xKX99kR7xKX99kR7xKX99kR7xKX99kR''"

text \<open>The screen as first mounted for a visitor without stored data.\<close>

definition exampleScreen :: PresaleScreen where
  "exampleScreen =
     \<lparr>view = VERIFY, loginHandle = [], loginWallet = [], amount = 0.1, txHash = [],
      history = [], notification = None, detectedCap = 0.15, timeLeft = ''24:00:00'',
      userData = \<lparr>handle = [], wallet = [], actualCommit = 0\<rparr>, ledger = None\<rparr>"

text \<open>Typing a handle and a wallet into the two inputs of the verify view.\<close>

definition loginAs :: "string \<Rightarrow> string \<Rightarrow> PresaleScreen \<Rightarrow> PresaleScreen" where
  "loginAs h w s = s\<lparr>loginHandle := h, loginWallet := w\<rparr>"

definition exampleProof :: string where
  "exampleProof = ''5VERv8NMvzbJMEkV8xnrLkEaWRtSz9CosKDYjCJj''"

definition exampleOld :: Submission where
  "exampleOld =
     \<lparr>sub_id = ''uuid-0'', missionId = ''presale_contribution'', proofUrl = exampleProof,
      sub_amount = 1, sub_status = ''PENDING'', timestamp = 1000\<rparr>"

text \<open>The contribution view of \<open>@monky_king\<close> with cap 10, an amount of 12 in the
  amount cell, a proof of 40 characters, an empty history and an empty store.\<close>

definition exampleContribute :: PresaleScreen where
  "exampleContribute =
     \<lparr>view = CONTRIBUTE, loginHandle = ''monky_king'', loginWallet = exampleWallet,
      amount = 12, txHash = exampleProof, history = [], notification = None,
      detectedCap = 10, timeLeft = ''12:00:00'',
      userData = \<lparr>handle = ''@monky_king'', wallet = exampleWallet, actualCommit = 10\<rparr>,
      ledger = None\<rparr>"

text \<open>The same view when the store already holds a submission of that handle which
  the history cell does not show.\<close>

definition exampleStale :: PresaleScreen where
  "exampleStale = exampleContribute\<lparr>ledger := Some [''monky_king'' \<mapsto> [exampleOld]]\<rparr>"

text \<open>The first screen for a visitor whose stored data carries a commit of 10.\<close>

definition exampleReturning :: PresaleScreen where
  "exampleReturning =
     exampleScreen\<lparr>userData :=
       \<lparr>handle = ''@monky_king'', wallet = exampleWallet, actualCommit = 10\<rparr>\<rparr>"

section \<open>Strings\<close>

lemma lowerChar_idem: "lowerChar (lowerChar c) = lowerChar c"
  by (auto simp: lowerChar_def Let_def)

lemma toLowerCase_idem: "toLowerCase (toLowerCase s) = toLowerCase s"
  by (simp add: toLowerCase_def lowerChar_idem)

lemma isWhiteSpace_lowerChar: "isWhiteSpace (lowerChar c) = isWhiteSpace c"
  by (auto simp: lowerChar_def Let_def isWhiteSpace_def)

lemma dropWhile_white_lower:
  "dropWhile isWhiteSpace (map lowerChar s) = map lowerChar (dropWhile isWhiteSpace s)"
  by (induction s) (simp_all add: isWhiteSpace_lowerChar)

lemma trim_toLowerCase: "trim (toLowerCase s) = toLowerCase (trim s)"
  by (simp add: trim_def toLowerCase_def dropWhile_white_lower rev_map)

lemma dropWhile_dropWhile: "dropWhile P (dropWhile P xs) = dropWhile P xs"
  by (induction xs) simp_all

lemma dropWhile_snoc_keeps_last:
  "\<not> P y \<Longrightarrow> \<exists>ws. dropWhile P (xs @ [y]) = ws @ [y]"
  by (induction xs) auto

lemma dropWhile_rev_dropWhile:
  "dropWhile P (rev (dropWhile P (rev (dropWhile P xs))))
     = rev (dropWhile P (rev (dropWhile P xs)))"
proof (cases "dropWhile P xs")
  case Nil
  show ?thesis unfolding Nil by simp
next
  case (Cons y ys)
  then have ny: "\<not> P y" by (metis hd_dropWhile list.sel(1) list.distinct(1))
  from dropWhile_snoc_keeps_last [of P y "rev ys"] ny
  obtain ws where "dropWhile P (rev ys @ [y]) = ws @ [y]" by blast
  with ny Cons show ?thesis by simp
qed

lemma trim_idem: "trim (trim s) = trim s"
  by (simp add: trim_def dropWhile_rev_dropWhile dropWhile_dropWhile)

lemma trim_normalizeHandle: "trim (normalizeHandle x) = normalizeHandle x"
  by (simp add: normalizeHandle_def trim_toLowerCase trim_idem)

lemma toLowerCase_normalizeHandle: "toLowerCase (normalizeHandle x) = normalizeHandle x"
  by (simp add: normalizeHandle_def toLowerCase_idem)

lemma lowerChar_at: "lowerChar (CHR ''@'') = CHR ''@''"
  by (simp add: lowerChar_def)

lemma handleKey_marked: "toLowerCase h = h \<Longrightarrow> handleKey (CHR ''@'' # h) = h"
  by (simp add: handleKey_def toLowerCase_def lowerChar_at)

lemma handleKey_startsWithAt:
  "toLowerCase h = h \<Longrightarrow> startsWithAt h \<Longrightarrow> handleKey h = tl h"
  by (cases h) (auto simp: handleKey_def startsWithAt_def)

lemma startsWithAt_marked: "startsWithAt (if startsWithAt h then h else CHR ''@'' # h)"
  by (simp add: startsWithAt_def)

lemma handleKey_stored:
  "toLowerCase h = h \<Longrightarrow>
     handleKey (if startsWithAt h then h else CHR ''@'' # h)
       = (if startsWithAt h then tl h else h)"
  by (simp add: handleKey_marked handleKey_startsWithAt)

text \<open>Of the property names of \<open>Object.prototype\<close>, only two are in lower case.\<close>

lemma lower_proto_keys_all:
  "list_all (\<lambda>k. toLowerCase k = k \<longrightarrow> k = ''constructor'' \<or> k = ''__proto__'')
     objectPrototypeKeys"
  by (simp add: objectPrototypeKeys_def toLowerCase_def lowerChar_def char_of_eq_iff)

lemma lower_proto_keys:
  assumes "toLowerCase h = h" "h \<in> set objectPrototypeKeys"
  shows "h = ''constructor'' \<or> h = ''__proto__''"
  using lower_proto_keys_all assms unfolding list_all_iff by blast

section \<open>PresaleScreen: verification\<close>

lemma MOCK_JUNGLE_DB_Nil: "MOCK_JUNGLE_DB [] = None"
  by (simp add: MOCK_JUNGLE_DB_def)

lemma SOLANA_ADDRESS_REGEX_nonempty: "SOLANA_ADDRESS_REGEX w \<Longrightarrow> w \<noteq> []"
  by (auto simp: SOLANA_ADDRESS_REGEX_def)

lemma handleVerify_unknown:
  assumes "normalizeHandle (loginHandle s) \<noteq> []"
    and "SOLANA_ADDRESS_REGEX (trim (loginWallet s))"
    and "getProperty MOCK_JUNGLE_DB (normalizeHandle (loginHandle s)) = Undefined"
  shows "handleVerify s =
           verified s (normalizeHandle (loginHandle s)) (trim (loginWallet s))
             (if actualCommit (userData s) \<noteq> 0 then actualCommit (userData s) else 0.15)"
  using assms SOLANA_ADDRESS_REGEX_nonempty [OF assms(2)]
  by (simp add: handleVerify_def Let_def)

lemma handleVerify_known:
  assumes "MOCK_JUNGLE_DB (normalizeHandle (loginHandle s)) = Some (recWallet, commit)"
    and "SOLANA_ADDRESS_REGEX (trim (loginWallet s))"
  shows "handleVerify s =
           (if recWallet \<noteq> trim (loginWallet s)
            then s\<lparr>notification := Some SECURITY_WARNING\<rparr>
            else verified s (normalizeHandle (loginHandle s)) (trim (loginWallet s)) commit)"
proof -
  have "normalizeHandle (loginHandle s) \<noteq> []"
    using assms(1) MOCK_JUNGLE_DB_Nil by auto
  then show ?thesis
    using assms SOLANA_ADDRESS_REGEX_nonempty [OF assms(2)]
    by (simp add: handleVerify_def Let_def getProperty_def)
qed

lemma handleVerify_success:
  assumes "notification (handleVerify s) = Some (UPLINK_STABLE h c)"
  shows "h = normalizeHandle (loginHandle s) \<and> h \<noteq> []
         \<and> handleVerify s = verified s h (trim (loginWallet s)) c"
  using assms
  by (auto simp: handleVerify_def Let_def verified_def split: if_splits property.splits)

lemma wallet_ok: "SOLANA_ADDRESS_REGEX exampleWallet"
  by (simp add: exampleWallet_def SOLANA_ADDRESS_REGEX_def base58_def)

lemma trim_exampleWallet: "trim exampleWallet = exampleWallet"
  by (simp add: exampleWallet_def trim_def isWhiteSpace_def)

lemma normalize_nobody: "normalizeHandle ''@Nobody'' = ''nobody''"
  by (simp add: normalizeHandle_def toLowerCase_def trim_def isWhiteSpace_def lowerChar_def
        char_of_eq_iff)

lemma normalize_king: "normalizeHandle '' @Monky_King '' = ''monky_king''"
  by (simp add: normalizeHandle_def toLowerCase_def trim_def isWhiteSpace_def lowerChar_def
        char_of_eq_iff)

lemma jungle_nobody: "MOCK_JUNGLE_DB ''nobody'' = None"
  by (simp add: MOCK_JUNGLE_DB_def)

lemma jungle_king: "MOCK_JUNGLE_DB ''monky_king'' = Some (exampleWallet, 10)"
  by (simp add: MOCK_JUNGLE_DB_def exampleWallet_def)

lemma verify_king:
  "handleVerify (loginAs '' @Monky_King '' exampleWallet exampleScreen)
     = verified (loginAs '' @Monky_King '' exampleWallet exampleScreen)
         ''monky_king'' exampleWallet 10"
proof -
  let ?s = "loginAs '' @Monky_King '' exampleWallet exampleScreen"
  have h: "normalizeHandle (loginHandle ?s) = ''monky_king''"
    by (simp add: loginAs_def normalize_king)
  have w: "trim (loginWallet ?s) = exampleWallet"
    by (simp add: loginAs_def trim_exampleWallet)
  have k: "MOCK_JUNGLE_DB (normalizeHandle (loginHandle ?s)) = Some (exampleWallet, 10)"
    unfolding h by (rule jungle_king)
  have r: "SOLANA_ADDRESS_REGEX (trim (loginWallet ?s))"
    unfolding w by (rule wallet_ok)
  show ?thesis unfolding handleVerify_known [OF k r] h w by simp
qed

text \<open>
  Claim C2, as the code has it. For a non-empty normalized handle that is no key of
  the allocation table (and neither of the two lower-case property names of
  \<open>Object.prototype\<close>) and a trimmed wallet matching the address grammar, verification
  succeeds and the cap is the stored \<open>actualCommit\<close> of the session when that is not
  zero, and 0.15 otherwise; it is never zero.
\<close>

theorem verify_unknown_handle_cap:
  assumes "normalizeHandle (loginHandle s) \<noteq> []"
    and "SOLANA_ADDRESS_REGEX (trim (loginWallet s))"
    and "MOCK_JUNGLE_DB (normalizeHandle (loginHandle s)) = None"
    and "normalizeHandle (loginHandle s) \<noteq> ''constructor''"
    and "normalizeHandle (loginHandle s) \<noteq> ''__proto__''"
  shows "notification (handleVerify s)
           = Some (UPLINK_STABLE (normalizeHandle (loginHandle s)) (detectedCap (handleVerify s)))
     \<and> view (handleVerify s) = CONTRIBUTE
     \<and> detectedCap (handleVerify s)
           = (if actualCommit (userData s) \<noteq> 0 then actualCommit (userData s) else 0.15)
     \<and> detectedCap (handleVerify s) \<noteq> 0
     \<and> actualCommit (userData (handleVerify s)) = detectedCap (handleVerify s)"
proof -
  have "normalizeHandle (loginHandle s) \<notin> set objectPrototypeKeys"
    using lower_proto_keys [OF toLowerCase_normalizeHandle] assms(4,5) by blast
  with assms(3) have "getProperty MOCK_JUNGLE_DB (normalizeHandle (loginHandle s)) = Undefined"
    by (simp add: getProperty_def)
  from handleVerify_unknown [OF assms(1,2) this] show ?thesis
    by (simp add: verified_def)
qed

text \<open>A first-time visitor verifying the unknown handle \<open>@Nobody\<close> gets the cap 0.15.\<close>

theorem verify_unknown_handle_cap_witness:
  "detectedCap (handleVerify (loginAs ''@Nobody'' exampleWallet exampleScreen)) = 0.15
   \<and> view (handleVerify (loginAs ''@Nobody'' exampleWallet exampleScreen)) = CONTRIBUTE"
proof -
  let ?s = "loginAs ''@Nobody'' exampleWallet exampleScreen"
  have h: "normalizeHandle (loginHandle ?s) = ''nobody''"
    by (simp add: loginAs_def normalize_nobody)
  have w: "trim (loginWallet ?s) = exampleWallet"
    by (simp add: loginAs_def trim_exampleWallet)
  have a: "actualCommit (userData ?s) = 0"
    by (simp add: loginAs_def exampleScreen_def)
  from verify_unknown_handle_cap [of ?s] show ?thesis
    unfolding h w a by (simp add: jungle_nobody wallet_ok)
qed

text \<open>The same unknown handle and wallet resolve to the cap 0.15 for a first-time
  visitor and to the cap 10 for a visitor whose stored commit is 10: the cap of an
  unknown handle is not one fixed constant.\<close>

theorem verify_unknown_handle_cap_varies:
  "normalizeHandle ''@Nobody'' \<noteq> [] \<and> SOLANA_ADDRESS_REGEX (trim exampleWallet)
   \<and> MOCK_JUNGLE_DB (normalizeHandle ''@Nobody'') = None
   \<and> detectedCap (handleVerify (loginAs ''@Nobody'' exampleWallet exampleScreen)) = 0.15
   \<and> detectedCap (handleVerify (loginAs ''@Nobody'' exampleWallet exampleReturning)) = 10"
  by (simp add: normalize_nobody trim_exampleWallet wallet_ok jungle_nobody handleVerify_def
        SOLANA_ADDRESS_REGEX_nonempty [OF wallet_ok] loginAs_def exampleScreen_def
        exampleReturning_def getProperty_def objectPrototypeKeys_def verified_def Let_def)

text \<open>
  Claim C3, as the code has it. For a normalized handle that is a key of the
  allocation table and a trimmed wallet matching the address grammar, verification
  ends with the wallet-mismatch warning exactly when the trimmed wallet differs from
  the recorded one; then only the notification changes (session data, detected cap,
  amount and view are as before). When the wallets agree the cap is the recorded
  commit.
\<close>

theorem verify_known_handle_mismatch:
  assumes "MOCK_JUNGLE_DB (normalizeHandle (loginHandle s)) = Some (recWallet, commit)"
    and "SOLANA_ADDRESS_REGEX (trim (loginWallet s))"
  shows "(notification (handleVerify s) = Some SECURITY_WARNING
            \<longleftrightarrow> trim (loginWallet s) \<noteq> recWallet)
     \<and> (trim (loginWallet s) \<noteq> recWallet
            \<longrightarrow> handleVerify s = s\<lparr>notification := Some SECURITY_WARNING\<rparr>
              \<and> userData (handleVerify s) = userData s
              \<and> detectedCap (handleVerify s) = detectedCap s
              \<and> amount (handleVerify s) = amount s
              \<and> view (handleVerify s) = view s)
     \<and> (trim (loginWallet s) = recWallet
            \<longrightarrow> detectedCap (handleVerify s) = commit \<and> view (handleVerify s) = CONTRIBUTE)"
  unfolding handleVerify_known [OF assms]
  by (auto simp: verified_def)

text \<open>\<open>monky_king\<close> with the recorded wallet is verified with cap 10; with the wallet
  recorded for \<open>degen_ape\<close> the same handle gets the warning and the screen stays on
  the verify view.\<close>

theorem verify_known_handle_mismatch_witness:
  "detectedCap (handleVerify (loginAs '' @Monky_King '' exampleWallet exampleScreen)) = 10
   \<and> notification (handleVerify (loginAs '' @Monky_King ''
        ''Ape1111111111111111111111111111111111111'' exampleScreen)) = Some SECURITY_WARNING
   \<and> view (handleVerify (loginAs '' @Monky_King ''
        ''Ape1111111111111111111111111111111111111'' exampleScreen)) = VERIFY"
proof -
  let ?s = "loginAs '' @Monky_King '' exampleWallet exampleScreen"
  let ?t = "loginAs '' @Monky_King '' ''Ape1111111111111111111111111111111111111'' exampleScreen"
  have w: "trim (loginWallet ?s) = exampleWallet"
    by (simp add: loginAs_def trim_exampleWallet)
  have k: "MOCK_JUNGLE_DB (normalizeHandle (loginHandle ?s)) = Some (exampleWallet, 10)"
    by (simp add: loginAs_def normalize_king jungle_king)
  have r: "SOLANA_ADDRESS_REGEX (trim (loginWallet ?s))"
    unfolding w by (rule wallet_ok)
  have w': "trim (loginWallet ?t) = ''Ape1111111111111111111111111111111111111''"
    by (simp add: loginAs_def trim_def isWhiteSpace_def)
  have k': "MOCK_JUNGLE_DB (normalizeHandle (loginHandle ?t)) = Some (exampleWallet, 10)"
    by (simp add: loginAs_def normalize_king jungle_king)
  have r': "SOLANA_ADDRESS_REGEX (trim (loginWallet ?t))"
    unfolding w' by (simp add: SOLANA_ADDRESS_REGEX_def base58_def)
  have d: "''Ape1111111111111111111111111111111111111'' \<noteq> exampleWallet"
    by (simp add: exampleWallet_def)
  have v: "view ?t = VERIFY" by (simp add: loginAs_def exampleScreen_def)
  from verify_known_handle_mismatch [OF k r] verify_known_handle_mismatch [OF k' r'] w w' d v
  show ?thesis by simp
qed

text \<open>\<open>monky_king\<close> with the wallet \<open>Ape1\<close>: the wallet differs from the recorded one,
  and verification ends with the format error, not with the mismatch warning.\<close>

theorem verify_known_handle_format_error_first:
  "MOCK_JUNGLE_DB (normalizeHandle (loginHandle (loginAs ''monky_king'' ''Ape1'' exampleScreen)))
      = Some (exampleWallet, 10)
   \<and> loginWallet (loginAs ''monky_king'' ''Ape1'' exampleScreen) \<noteq> exampleWallet
   \<and> notification (handleVerify (loginAs ''monky_king'' ''Ape1'' exampleScreen))
      = Some FORMAT_ERROR"
  by (simp add: loginAs_def exampleScreen_def handleVerify_def Let_def normalizeHandle_def
        toLowerCase_def trim_def isWhiteSpace_def lowerChar_def char_of_eq_iff
        MOCK_JUNGLE_DB_def exampleWallet_def SOLANA_ADDRESS_REGEX_def)

section \<open>PresaleScreen: the ledger key\<close>

lemma length_exampleProof: "length exampleProof = 40"
  by (simp add: exampleProof_def)

lemma exampleProof_nonempty: "exampleProof \<noteq> []"
  by (simp add: exampleProof_def)

lemma handleKey_king: "handleKey ''@monky_king'' = ''monky_king''"
  by (simp add: handleKey_def toLowerCase_def lowerChar_def)

lemma submitTx_closed:
  "timeLeft s = ''CLOSED'' \<Longrightarrow> submitTx uuid now s = s\<lparr>notification := Some PHASE_END\<rparr>"
  by (simp add: submitTx_def)

lemma submitTx_short:
  "timeLeft s \<noteq> ''CLOSED'' \<Longrightarrow> length (txHash s) < 32 \<Longrightarrow>
     submitTx uuid now s = s\<lparr>notification := Some HASH_INVALID\<rparr>"
  by (simp add: submitTx_def)

lemma submitTx_accepted:
  "timeLeft s \<noteq> ''CLOSED'' \<Longrightarrow> 32 \<le> length (txHash s) \<Longrightarrow>
     submitTx uuid now s =
       s\<lparr>history := newSubmission uuid now s # history s,
         ledger := Some (setProperty (case ledger s of None \<Rightarrow> Map.empty | Some m \<Rightarrow> m)
                      (handleKey (handle (userData s))) (newSubmission uuid now s # history s)),
         txHash := [],
         notification := Some TRANSMISSION_COMPLETE\<rparr>"
  by (auto simp: submitTx_def Let_def)

lemma set_replaceAt: "set (replaceAt x) \<subseteq> set x"
  by (induction x) auto

lemma toLowerCase_handleKey: "toLowerCase (handleKey h) = handleKey h"
proof -
  have "lowerChar c = c" if "c \<in> set (replaceAt (map lowerChar h))" for c
  proof -
    from that set_replaceAt have "c \<in> set (map lowerChar h)" by blast
    then obtain d where "c = lowerChar d" by auto
    then show ?thesis by (simp add: lowerChar_idem)
  qed
  then show ?thesis by (simp add: handleKey_def toLowerCase_def map_idI)
qed

text \<open>The only inherited property names that the key of a handle can be.\<close>

lemma handleKey_inherited:
  "handleKey h \<in> set objectPrototypeKeys \<Longrightarrow>
     handleKey h = ''constructor'' \<or> handleKey h = ''__proto__''"
  by (rule lower_proto_keys [OF toLowerCase_handleKey])

lemma loadHistory_slice:
  assumes "handle (userData t) \<noteq> []" and "ledger t = Some m"
    and "handleKey (handle (userData t)) \<noteq> ''constructor''"
    and "handleKey (handle (userData t)) \<noteq> ''__proto__''"
  shows "loadHistory t
           = Loaded (t\<lparr>history := ledgerSlice (Some m) (handleKey (handle (userData t)))\<rparr>)"
proof -
  have "handleKey (handle (userData t)) \<notin> set objectPrototypeKeys"
    using handleKey_inherited assms(3,4) by blast
  with assms(1,2) show ?thesis
    by (simp add: loadHistory_def getProperty_def ledgerSlice_def split: option.splits)
qed

lemma ledgerSlice_setProperty:
  "k \<noteq> ''__proto__'' \<Longrightarrow>
     ledgerSlice (Some (setProperty m k v)) k' = (if k' = k then v else ledgerSlice (Some m) k')"
  by (simp add: ledgerSlice_def setProperty_def)

lemma submitTx_slice:
  assumes "timeLeft t \<noteq> ''CLOSED''" and "32 \<le> length (txHash t)"
    and "handleKey (handle (userData t)) \<noteq> ''__proto__''"
  shows "ledgerSlice (ledger (submitTx uuid now t)) (handleKey (handle (userData t)))
           = newSubmission uuid now t # history t"
  unfolding submitTx_accepted [OF assms(1,2)] using assms(3)
  by (simp add: ledgerSlice_setProperty)

lemma ledgerSlice_allData:
  "ledgerSlice (Some (case l of None \<Rightarrow> Map.empty | Some m \<Rightarrow> m)) k = ledgerSlice l k"
  by (simp add: ledgerSlice_def split: option.splits)

text \<open>The history effect leaves the history cell equal to the persisted slice of the
  key whenever it reads a store under a key that is no inherited property name.\<close>

lemma loadHistory_in_sync:
  assumes "loadHistory s = Loaded s'" and "handle (userData s) \<noteq> []"
    and "ledger s = Some m"
    and "handleKey (handle (userData s)) \<noteq> ''constructor''"
    and "handleKey (handle (userData s)) \<noteq> ''__proto__''"
  shows "history s' = ledgerSlice (ledger s') (handleKey (handle (userData s')))"
  using assms(1) unfolding loadHistory_slice [OF assms(2-5)]
  by (auto simp: assms(3))

text \<open>
  Claim C7, as the code has it. After a successful verification whose normalized
  handle \<open>h\<close> does not itself begin with the marker \<open>@\<close>, \<open>h\<close> is free of surrounding
  white space and in lower case, and the stored session handle is \<open>h\<close> with the marker
  put in front: the stored handle carries a leading marker. The key that the history
  effect and \<open>submitTx\<close> compute from the stored handle is \<open>h\<close>: a later load from a
  store sets the history to the persisted slice of \<open>h\<close> (for \<open>h\<close> other than
  \<open>constructor\<close> and \<open>__proto__\<close>), and a later accepted submission writes the
  persisted slice of \<open>h\<close> (for \<open>h\<close> other than \<open>__proto__\<close>).
\<close>

theorem verify_stores_marked_handle:
  assumes "notification (handleVerify s) = Some (UPLINK_STABLE h c)"
    and "\<not> startsWithAt h"
  shows "h = normalizeHandle (loginHandle s) \<and> h \<noteq> [] \<and> trim h = h \<and> toLowerCase h = h
     \<and> handle (userData (handleVerify s)) = CHR ''@'' # h
     \<and> handleKey (handle (userData (handleVerify s))) = h
     \<and> (\<forall>t m. userData t = userData (handleVerify s) \<and> ledger t = Some m
             \<and> h \<noteq> ''constructor'' \<and> h \<noteq> ''__proto__'' \<longrightarrow>
           loadHistory t = Loaded (t\<lparr>history := ledgerSlice (Some m) h\<rparr>))
     \<and> (\<forall>t uuid now.
           userData t = userData (handleVerify s) \<and> timeLeft t \<noteq> ''CLOSED''
             \<and> 32 \<le> length (txHash t) \<and> h \<noteq> ''__proto__'' \<longrightarrow>
           ledgerSlice (ledger (submitTx uuid now t)) h = newSubmission uuid now t # history t)"
proof -
  from handleVerify_success [OF assms(1)]
  have h: "h = normalizeHandle (loginHandle s)" and ne: "h \<noteq> []"
    and v: "handleVerify s = verified s h (trim (loginWallet s)) c" by blast+
  have tr: "trim h = h" unfolding h by (rule trim_normalizeHandle)
  have lo: "toLowerCase h = h" unfolding h by (rule toLowerCase_normalizeHandle)
  have st: "handle (userData (handleVerify s)) = CHR ''@'' # h"
    unfolding v using assms(2) by (simp add: verified_def)
  have key: "handleKey (handle (userData (handleVerify s))) = h"
    unfolding st by (rule handleKey_marked [OF lo])
  have rd: "\<forall>t m. userData t = userData (handleVerify s) \<and> ledger t = Some m
             \<and> h \<noteq> ''constructor'' \<and> h \<noteq> ''__proto__'' \<longrightarrow>
           loadHistory t = Loaded (t\<lparr>history := ledgerSlice (Some m) h\<rparr>)"
  proof (intro allI impI)
    fix t :: PresaleScreen and m
    assume a: "userData t = userData (handleVerify s) \<and> ledger t = Some m
             \<and> h \<noteq> ''constructor'' \<and> h \<noteq> ''__proto__''"
    then have u: "handle (userData t) = CHR ''@'' # h" using st by simp
    have k: "handleKey (handle (userData t)) = h" using a key by simp
    have "handle (userData t) \<noteq> []" using u by simp
    moreover have "ledger t = Some m" using a by blast
    moreover have "handleKey (handle (userData t)) \<noteq> ''constructor''"
      and "handleKey (handle (userData t)) \<noteq> ''__proto__''" using a k by simp_all
    ultimately have "loadHistory t
           = Loaded (t\<lparr>history := ledgerSlice (Some m) (handleKey (handle (userData t)))\<rparr>)"
      by (rule loadHistory_slice)
    then show "loadHistory t = Loaded (t\<lparr>history := ledgerSlice (Some m) h\<rparr>)"
      unfolding k .
  qed
  have wr: "\<forall>t uuid now.
           userData t = userData (handleVerify s) \<and> timeLeft t \<noteq> ''CLOSED''
             \<and> 32 \<le> length (txHash t) \<and> h \<noteq> ''__proto__'' \<longrightarrow>
           ledgerSlice (ledger (submitTx uuid now t)) h = newSubmission uuid now t # history t"
  proof (intro allI impI)
    fix t :: PresaleScreen and uuid now
    assume a: "userData t = userData (handleVerify s) \<and> timeLeft t \<noteq> ''CLOSED''
             \<and> 32 \<le> length (txHash t) \<and> h \<noteq> ''__proto__''"
    have k: "handleKey (handle (userData t)) = h" using a key by simp
    have "timeLeft t \<noteq> ''CLOSED''" and "32 \<le> length (txHash t)"
      and "handleKey (handle (userData t)) \<noteq> ''__proto__''" using a k by simp_all
    then have "ledgerSlice (ledger (submitTx uuid now t)) (handleKey (handle (userData t)))
           = newSubmission uuid now t # history t"
      by (rule submitTx_slice)
    then show "ledgerSlice (ledger (submitTx uuid now t)) h
                 = newSubmission uuid now t # history t"
      unfolding k .
  qed
  from h ne tr lo st key rd wr show ?thesis by blast
qed

text \<open>Verifying \<open>@Monky_King\<close> (with surrounding blanks) stores the handle
  \<open>@monky_king\<close>, whose key is \<open>monky_king\<close>; on a store that holds one submission
  under that key, the load sets the history to that submission.\<close>

theorem verify_stores_marked_handle_witness:
  "handle (userData (handleVerify (loginAs '' @Monky_King '' exampleWallet exampleScreen)))
      = ''@monky_king''
   \<and> handleKey (handle (userData
        (handleVerify (loginAs '' @Monky_King '' exampleWallet exampleScreen))))
      = ''monky_king''
   \<and> loadHistory exampleStale = Loaded (exampleStale\<lparr>history := [exampleOld]\<rparr>)
   \<and> ledgerSlice (ledger (submitTx ''uuid-1'' 2000 exampleStale)) ''monky_king''
      = newSubmission ''uuid-1'' 2000 exampleStale # history exampleStale"
proof -
  let ?v = "handleVerify (loginAs '' @Monky_King '' exampleWallet exampleScreen)"
  have n: "notification ?v = Some (UPLINK_STABLE ''monky_king'' 10)"
    unfolding verify_king by (simp add: verified_def)
  have m: "\<not> startsWithAt ''monky_king''" by (simp add: startsWithAt_def)
  have u: "userData exampleStale = userData ?v"
    unfolding verify_king
    by (simp add: verified_def exampleStale_def exampleContribute_def loginAs_def
          exampleScreen_def startsWithAt_def)
  have l: "ledger exampleStale = Some [''monky_king'' \<mapsto> [exampleOld]]"
    by (simp add: exampleStale_def)
  have t: "timeLeft exampleStale \<noteq> ''CLOSED''"
    by (simp add: exampleStale_def exampleContribute_def)
  have p: "32 \<le> length (txHash exampleStale)"
    by (simp add: exampleStale_def exampleContribute_def length_exampleProof)
  have c: "''monky_king'' \<noteq> ''constructor''" and q: "''monky_king'' \<noteq> ''__proto__''"
    by simp_all
  have sl: "ledgerSlice (Some [''monky_king'' \<mapsto> [exampleOld]]) ''monky_king'' = [exampleOld]"
    by (simp add: ledgerSlice_def)
  from verify_stores_marked_handle [OF n m]
  have a: "handle (userData ?v) = CHR ''@'' # ''monky_king''"
    and b: "handleKey (handle (userData ?v)) = ''monky_king''"
    and r: "\<forall>t m. userData t = userData ?v \<and> ledger t = Some m
             \<and> ''monky_king'' \<noteq> ''constructor'' \<and> ''monky_king'' \<noteq> ''__proto__'' \<longrightarrow>
           loadHistory t = Loaded (t\<lparr>history := ledgerSlice (Some m) ''monky_king''\<rparr>)"
    and w: "\<forall>t uuid now.
           userData t = userData ?v \<and> timeLeft t \<noteq> ''CLOSED''
             \<and> 32 \<le> length (txHash t) \<and> ''monky_king'' \<noteq> ''__proto__'' \<longrightarrow>
           ledgerSlice (ledger (submitTx uuid now t)) ''monky_king''
             = newSubmission uuid now t # history t"
    by blast+
  from r u l c q
  have "loadHistory exampleStale
          = Loaded (exampleStale\<lparr>history :=
              ledgerSlice (Some [''monky_king'' \<mapsto> [exampleOld]]) ''monky_king''\<rparr>)"
    by blast
  then have r': "loadHistory exampleStale = Loaded (exampleStale\<lparr>history := [exampleOld]\<rparr>)"
    unfolding sl .
  from w u t p q
  have w': "ledgerSlice (ledger (submitTx ''uuid-1'' 2000 exampleStale)) ''monky_king''
              = newSubmission ''uuid-1'' 2000 exampleStale # history exampleStale"
    by blast
  from a b r' w' show ?thesis by simp
qed

text \<open>After the successful verification of \<open>@Monky_King\<close> the session handle is
  \<open>@monky_king\<close>: it begins with the marker and is not the normalized handle.\<close>

theorem verify_stored_handle_has_marker:
  "notification (handleVerify (loginAs '' @Monky_King '' exampleWallet exampleScreen))
      = Some (UPLINK_STABLE ''monky_king'' 10)
   \<and> handle (userData (handleVerify (loginAs '' @Monky_King '' exampleWallet exampleScreen)))
      = ''@monky_king''
   \<and> startsWithAt (handle (userData
        (handleVerify (loginAs '' @Monky_King '' exampleWallet exampleScreen))))
   \<and> handle (userData (handleVerify (loginAs '' @Monky_King '' exampleWallet exampleScreen)))
      \<noteq> normalizeHandle '' @Monky_King ''"
  unfolding verify_king by (simp add: verified_def startsWithAt_def normalize_king)

section \<open>PresaleScreen: submissions\<close>

text \<open>
  Claim C1, as the code has it. \<open>submitTx\<close> accepts, and prepends a submission to the
  history, exactly when the timer text is not \<open>CLOSED\<close> and the proof has at least 32
  characters. A closed window is reported first, a short proof second. The amount is
  not examined: the submission carries the amount cell as it is.
\<close>

theorem submitTx_accepts_iff_open_and_proof:
  "(notification (submitTx uuid now s) = Some TRANSMISSION_COMPLETE
      \<longleftrightarrow> timeLeft s \<noteq> ''CLOSED'' \<and> 32 \<le> length (txHash s))
   \<and> (history (submitTx uuid now s) = newSubmission uuid now s # history s
      \<longleftrightarrow> timeLeft s \<noteq> ''CLOSED'' \<and> 32 \<le> length (txHash s))
   \<and> (timeLeft s = ''CLOSED'' \<longrightarrow> submitTx uuid now s = s\<lparr>notification := Some PHASE_END\<rparr>)
   \<and> (timeLeft s \<noteq> ''CLOSED'' \<and> length (txHash s) < 32
        \<longrightarrow> submitTx uuid now s = s\<lparr>notification := Some HASH_INVALID\<rparr>)
   \<and> (timeLeft s \<noteq> ''CLOSED'' \<and> 32 \<le> length (txHash s)
        \<longrightarrow> sub_amount (newSubmission uuid now s) = amount s)"
proof (cases "timeLeft s = ''CLOSED''")
  case True
  then show ?thesis by (simp add: submitTx_closed)
next
  case isOpen: False
  show ?thesis
  proof (cases "length (txHash s) < 32")
    case True
    with isOpen show ?thesis by (simp add: submitTx_short)
  next
    case False
    then have "32 \<le> length (txHash s)" by simp
    with isOpen show ?thesis by (simp add: submitTx_accepted newSubmission_def)
  qed
qed

text \<open>The example view accepts; with the timer text \<open>CLOSED\<close> it reports the end of
  the phase, and with the proof \<open>abc\<close> an invalid hash.\<close>

theorem submitTx_accepts_iff_open_and_proof_witness:
  "notification (submitTx ''uuid-1'' 2000 exampleContribute) = Some TRANSMISSION_COMPLETE
   \<and> notification (submitTx ''uuid-1'' 2000 (exampleContribute\<lparr>timeLeft := ''CLOSED''\<rparr>))
      = Some PHASE_END
   \<and> notification (submitTx ''uuid-1'' 2000 (exampleContribute\<lparr>txHash := ''abc''\<rparr>))
      = Some HASH_INVALID"
  using submitTx_accepts_iff_open_and_proof [of "''uuid-1''" 2000 exampleContribute]
        submitTx_accepts_iff_open_and_proof
          [of "''uuid-1''" 2000 "exampleContribute\<lparr>timeLeft := ''CLOSED''\<rparr>"]
        submitTx_accepts_iff_open_and_proof
          [of "''uuid-1''" 2000 "exampleContribute\<lparr>txHash := ''abc''\<rparr>"]
  by (simp add: exampleContribute_def length_exampleProof)

text \<open>With the window open, a proof of 40 characters, cap 10 and amount 12, the
  submission is accepted and recorded with amount 12.\<close>

theorem submitTx_accepts_amount_above_cap:
  "timeLeft exampleContribute \<noteq> ''CLOSED''
   \<and> 32 \<le> length (txHash exampleContribute)
   \<and> \<not> (minimumContribution \<le> amount exampleContribute
          \<and> amount exampleContribute \<le> detectedCap exampleContribute)
   \<and> notification (submitTx ''uuid-1'' 2000 exampleContribute) = Some TRANSMISSION_COMPLETE
   \<and> map sub_amount (history (submitTx ''uuid-1'' 2000 exampleContribute)) = [12]"
  by (simp add: exampleContribute_def length_exampleProof exampleProof_nonempty submitTx_def
        Let_def newSubmission_def minimumContribution_def)

text \<open>
  Claim C8, as the code has it. An accepted submission has status \<open>PENDING\<close>, the
  drawn id and the current time, and is prepended to the history. The persisted slice
  of the handle key (any key but \<open>__proto__\<close>) is replaced as a whole by the new
  history, and the slices of all other keys are as before. When the history cell
  equalled the persisted slice before, the slice grows by exactly that one entry in
  front of its former entries. An id that is new to the history keeps the ids of
  the history distinct.
\<close>

theorem submitTx_prepends_and_persists:
  assumes "timeLeft s \<noteq> ''CLOSED''" and "32 \<le> length (txHash s)"
    and "handleKey (handle (userData s)) \<noteq> ''__proto__''"
  shows "history (submitTx uuid now s) = newSubmission uuid now s # history s
     \<and> sub_status (newSubmission uuid now s) = ''PENDING''
     \<and> sub_id (newSubmission uuid now s) = uuid
     \<and> timestamp (newSubmission uuid now s) = now
     \<and> ledgerSlice (ledger (submitTx uuid now s)) (handleKey (handle (userData s)))
          = newSubmission uuid now s # history s
     \<and> (\<forall>k. k \<noteq> handleKey (handle (userData s))
          \<longrightarrow> ledgerSlice (ledger (submitTx uuid now s)) k = ledgerSlice (ledger s) k)
     \<and> (history s = ledgerSlice (ledger s) (handleKey (handle (userData s)))
          \<longrightarrow> ledgerSlice (ledger (submitTx uuid now s)) (handleKey (handle (userData s)))
                = newSubmission uuid now s
                    # ledgerSlice (ledger s) (handleKey (handle (userData s)))
              \<and> length (ledgerSlice (ledger (submitTx uuid now s))
                          (handleKey (handle (userData s))))
                = Suc (length (ledgerSlice (ledger s) (handleKey (handle (userData s))))))
     \<and> (uuid \<notin> sub_id ` set (history s) \<and> distinct (map sub_id (history s))
          \<longrightarrow> distinct (map sub_id (history (submitTx uuid now s))))"
  unfolding submitTx_accepted [OF assms(1,2)]
  using assms(3)
  by (simp add: ledgerSlice_setProperty ledgerSlice_allData newSubmission_def)

text \<open>The first submission of \<open>@monky_king\<close> on an empty store: history and persisted
  slice both become the one new submission.\<close>

theorem submitTx_prepends_and_persists_witness:
  "history (submitTx ''uuid-1'' 2000 exampleContribute)
      = [newSubmission ''uuid-1'' 2000 exampleContribute]
   \<and> ledgerSlice (ledger exampleContribute) ''monky_king'' = []
   \<and> ledgerSlice (ledger (submitTx ''uuid-1'' 2000 exampleContribute)) ''monky_king''
      = [newSubmission ''uuid-1'' 2000 exampleContribute]
   \<and> ledgerSlice (ledger (submitTx ''uuid-1'' 2000 exampleContribute)) ''degen_ape'' = []"
proof -
  have t: "timeLeft exampleContribute \<noteq> ''CLOSED''" by (simp add: exampleContribute_def)
  have p: "32 \<le> length (txHash exampleContribute)"
    by (simp add: exampleContribute_def length_exampleProof)
  have k: "handleKey (handle (userData exampleContribute)) = ''monky_king''"
    by (simp add: exampleContribute_def handleKey_king)
  have n: "handleKey (handle (userData exampleContribute)) \<noteq> ''__proto__''"
    unfolding k by simp
  have h: "history exampleContribute = []" by (simp add: exampleContribute_def)
  have l: "ledgerSlice (ledger exampleContribute) k = []" for k
    by (simp add: exampleContribute_def ledgerSlice_def)
  from submitTx_prepends_and_persists [OF t p n, of "''uuid-1''" 2000] show ?thesis
    unfolding k h l by simp
qed

text \<open>When the store holds a submission that the history cell does not show, an
  accepted submission leaves a persisted slice of one entry, as long as before, and
  the stored submission is gone from it.\<close>

theorem submitTx_overwrites_stale_slice:
  "notification (submitTx ''uuid-1'' 2000 exampleStale) = Some TRANSMISSION_COMPLETE
   \<and> ledgerSlice (ledger exampleStale) ''monky_king'' = [exampleOld]
   \<and> ledgerSlice (ledger (submitTx ''uuid-1'' 2000 exampleStale)) ''monky_king''
      = [newSubmission ''uuid-1'' 2000 exampleStale]
   \<and> length (ledgerSlice (ledger (submitTx ''uuid-1'' 2000 exampleStale)) ''monky_king'')
      = length (ledgerSlice (ledger exampleStale) ''monky_king'')
   \<and> exampleOld \<notin> set (ledgerSlice (ledger (submitTx ''uuid-1'' 2000 exampleStale))
                          ''monky_king'')"
  by (simp add: exampleStale_def exampleContribute_def length_exampleProof
        exampleProof_nonempty submitTx_def Let_def handleKey_king ledgerSlice_def
        setProperty_def newSubmission_def exampleOld_def)

section \<open>PresaleScreen: the countdown\<close>

lemma mod_div_mult:
  fixes a b c :: int
  assumes "0 < b" and "0 \<le> c"
  shows "(a mod (b * c)) div b = (a div b) mod c"
  using assms by (simp add: zmod_zmult2_eq)

lemma hoursOf_eq: "hoursOf d = (d div 3600000) mod 24"
  using mod_div_mult [of 3600000 24 d] by (simp add: hoursOf_def)

lemma minutesOf_eq: "minutesOf d = (d div 60000) mod 60"
  using mod_div_mult [of 60000 60 d] by (simp add: minutesOf_def)

lemma secondsOf_eq: "secondsOf d = (d div 1000) mod 60"
  using mod_div_mult [of 1000 60 d] by (simp add: secondsOf_def)

lemma components_nonneg: "0 \<le> hoursOf d \<and> 0 \<le> minutesOf d \<and> 0 \<le> secondsOf d"
  by (simp add: hoursOf_eq minutesOf_eq secondsOf_eq)

lemma hoursOf_day: "0 \<le> d \<Longrightarrow> d < 86400000 \<Longrightarrow> hoursOf d = d div 3600000"
  unfolding hoursOf_def by simp

text \<open>The three components never add up to more than the distance.\<close>

lemma components_floor:
  assumes "0 \<le> d"
  shows "hoursOf d * 3600000 + minutesOf d * 60000 + secondsOf d * 1000 \<le> d"
proof -
  define H where "H = d div 3600000"
  define R where "R = d mod 3600000"
  define M where "M = R div 60000"
  define Q where "Q = R mod 60000"
  define S where "S = Q div 1000"
  define T where "T = Q mod 1000"
  have d: "d = 3600000 * H + R" by (simp add: H_def R_def)
  have r: "R = 60000 * M + Q" by (simp add: M_def Q_def)
  have q: "Q = 1000 * S + T" by (simp add: S_def T_def)
  have t: "0 \<le> T" by (simp add: T_def)
  have m: "minutesOf d = M" by (simp add: minutesOf_def M_def R_def)
  have "Q = d mod 60000" by (simp add: Q_def R_def mod_mod_cancel)
  then have s: "secondsOf d = S" by (simp add: secondsOf_def S_def)
  have "0 \<le> H" using assms by (simp add: H_def pos_imp_zdiv_nonneg_iff)
  then have "H mod 24 \<le> H" by (rule zmod_le_nonneg_dividend)
  then have h: "hoursOf d \<le> H" by (simp add: hoursOf_eq H_def)
  from d r q t h show ?thesis unfolding m s by linarith
qed

lemma length_padStart2: "2 \<le> length (padStart2 s)"
  by (simp add: padStart2_def)

lemma formatTimeLeft_not_closed: "formatTimeLeft d \<noteq> ''CLOSED''"
proof
  assume "formatTimeLeft d = ''CLOSED''"
  then have "length (formatTimeLeft d) = 6" by simp
  moreover have "8 \<le> length (formatTimeLeft d)"
    using length_padStart2 [of "digitsOf (nat (hoursOf d))"]
          length_padStart2 [of "digitsOf (nat (minutesOf d))"]
          length_padStart2 [of "digitsOf (nat (secondsOf d))"]
    by (simp add: formatTimeLeft_def)
  ultimately show False by simp
qed

lemma countdownTick_timeLeft:
  "timeLeft (countdownTick PRESALE_END_TIME now s)
     = (if PRESALE_END_TIME - now < 0 then ''CLOSED''
        else formatTimeLeft (PRESALE_END_TIME - now))"
  by (simp add: countdownTick_def Let_def)

lemma format_25h: "formatTimeLeft 90000000 = ''01:00:00''"
  by (simp add: formatTimeLeft_def hoursOf_def minutesOf_def secondsOf_def padStart2_def
        digitsOf.simps char_of_eq_iff)

lemma format_day_end: "formatTimeLeft 86399999 = ''23:59:59''"
  by (simp add: formatTimeLeft_def hoursOf_def minutesOf_def secondsOf_def padStart2_def
        digitsOf.simps char_of_eq_iff)

text \<open>
  Claim C6, as the code has it. For a distance \<open>PRESALE_END_TIME - now\<close> that is not
  negative, the timer text is built from hours = floor(distance / 3600000) mod 24,
  minutes = floor(distance / 60000) mod 60 and seconds = floor(distance / 1000) mod
  60; the components are not negative and never add up to more than the distance,
  and below one day the hours are floor(distance / 3600000). The timer text is
  \<open>CLOSED\<close> exactly when the distance is negative.
\<close>

theorem countdown_components:
  "(0 \<le> PRESALE_END_TIME - now \<longrightarrow>
      timeLeft (countdownTick PRESALE_END_TIME now s) = formatTimeLeft (PRESALE_END_TIME - now)
      \<and> hoursOf (PRESALE_END_TIME - now) = ((PRESALE_END_TIME - now) div 3600000) mod 24
      \<and> minutesOf (PRESALE_END_TIME - now) = ((PRESALE_END_TIME - now) div 60000) mod 60
      \<and> secondsOf (PRESALE_END_TIME - now) = ((PRESALE_END_TIME - now) div 1000) mod 60
      \<and> 0 \<le> hoursOf (PRESALE_END_TIME - now)
      \<and> 0 \<le> minutesOf (PRESALE_END_TIME - now)
      \<and> 0 \<le> secondsOf (PRESALE_END_TIME - now)
      \<and> hoursOf (PRESALE_END_TIME - now) * 3600000
           + minutesOf (PRESALE_END_TIME - now) * 60000
           + secondsOf (PRESALE_END_TIME - now) * 1000 \<le> PRESALE_END_TIME - now
      \<and> (PRESALE_END_TIME - now < 86400000 \<longrightarrow>
            hoursOf (PRESALE_END_TIME - now) = (PRESALE_END_TIME - now) div 3600000))
   \<and> (timeLeft (countdownTick PRESALE_END_TIME now s) = ''CLOSED''
        \<longleftrightarrow> PRESALE_END_TIME - now < 0)"
proof -
  define d where "d = PRESALE_END_TIME - now"
  have tick: "timeLeft (countdownTick PRESALE_END_TIME now s)
                = (if d < 0 then ''CLOSED'' else formatTimeLeft d)"
    unfolding d_def by (rule countdownTick_timeLeft)
  have closed: "timeLeft (countdownTick PRESALE_END_TIME now s) = ''CLOSED'' \<longleftrightarrow> d < 0"
    unfolding tick using formatTimeLeft_not_closed [of d] by simp
  have "0 \<le> d \<longrightarrow>
      timeLeft (countdownTick PRESALE_END_TIME now s) = formatTimeLeft d
      \<and> hoursOf d = (d div 3600000) mod 24
      \<and> minutesOf d = (d div 60000) mod 60
      \<and> secondsOf d = (d div 1000) mod 60
      \<and> 0 \<le> hoursOf d \<and> 0 \<le> minutesOf d \<and> 0 \<le> secondsOf d
      \<and> hoursOf d * 3600000 + minutesOf d * 60000 + secondsOf d * 1000 \<le> d
      \<and> (d < 86400000 \<longrightarrow> hoursOf d = d div 3600000)"
  proof
    assume nn: "0 \<le> d"
    then have "timeLeft (countdownTick PRESALE_END_TIME now s) = formatTimeLeft d"
      unfolding tick by simp
    moreover note hoursOf_eq [of d] minutesOf_eq [of d] secondsOf_eq [of d]
      components_nonneg [of d] components_floor [OF nn]
    moreover have "d < 86400000 \<longrightarrow> hoursOf d = d div 3600000"
      using hoursOf_day [OF nn] by blast
    ultimately show "timeLeft (countdownTick PRESALE_END_TIME now s) = formatTimeLeft d
      \<and> hoursOf d = (d div 3600000) mod 24
      \<and> minutesOf d = (d div 60000) mod 60
      \<and> secondsOf d = (d div 1000) mod 60
      \<and> 0 \<le> hoursOf d \<and> 0 \<le> minutesOf d \<and> 0 \<le> secondsOf d
      \<and> hoursOf d * 3600000 + minutesOf d * 60000 + secondsOf d * 1000 \<le> d
      \<and> (d < 86400000 \<longrightarrow> hoursOf d = d div 3600000)"
      by blast
  qed
  with closed show ?thesis unfolding d_def by blast
qed

text \<open>One millisecond after a deadline set one day ahead the timer shows 23:59:59;
  one millisecond past a deadline it shows \<open>CLOSED\<close>.\<close>

theorem countdown_components_witness:
  "timeLeft (countdownTick 86400000 1 exampleScreen) = ''23:59:59''
   \<and> hoursOf (86400000 - 1) = 23 \<and> minutesOf (86400000 - 1) = 59
   \<and> secondsOf (86400000 - 1) = 59
   \<and> timeLeft (countdownTick 1000 1001 exampleScreen) = ''CLOSED''"
  using countdown_components [of 86400000 1 exampleScreen]
        countdown_components [of 1000 1001 exampleScreen]
  by (simp add: format_day_end)

text \<open>Twenty-five hours before the deadline the hours component is 1, while
  floor(distance / 3600000) is 25, and the timer shows 01:00:00.\<close>

theorem countdown_hours_wrap_at_one_day:
  "(0::int) \<le> 90000000 - 0
   \<and> hoursOf (90000000 - 0) = 1
   \<and> (90000000 - 0) div 3600000 = (25::int)
   \<and> timeLeft (countdownTick 90000000 0 exampleScreen) = ''01:00:00''"
  by (simp add: hoursOf_def countdownTick_def format_25h)

section \<open>AdminScreen: the access gate\<close>

lemma invariant_mounted: "subscriptionInvariant adminEmail (mounted adminEmail)"
  by (simp add: subscriptionInvariant_def mounted_def subscriptionEffect_def)

lemma invariant_effect: "subscriptionInvariant adminEmail (subscriptionEffect adminEmail s)"
  by (simp add: subscriptionInvariant_def subscriptionEffect_def)

lemma invariant_authStateChanged:
  assumes "subscriptionInvariant adminEmail s"
  shows "subscriptionInvariant adminEmail (authStateChanged adminEmail u s)"
proof (cases "authReady s \<and> isAllowed adminEmail u = isAllowed adminEmail (authUser s)")
  case True
  then have "authStateChanged adminEmail u s = s\<lparr>authUser := u, authReady := True\<rparr>"
    by (simp add: authStateChanged_def)
  with assms True show ?thesis
    by (simp add: subscriptionInvariant_def)
next
  case False
  then have "authStateChanged adminEmail u s
               = subscriptionEffect adminEmail (s\<lparr>authUser := u, authReady := True\<rparr>)"
    by (auto simp: authStateChanged_def)
  then show ?thesis by (simp add: invariant_effect)
qed

lemma invariant_step:
  "subscriptionInvariant adminEmail s \<Longrightarrow> subscriptionInvariant adminEmail (step adminEmail s e)"
proof (cases e)
  case (AuthStateChanged u)
  assume "subscriptionInvariant adminEmail s"
  with AuthStateChanged show ?thesis by (simp add: invariant_authStateChanged)
next
  case (SnapshotNext docs)
  assume "subscriptionInvariant adminEmail s"
  with SnapshotNext show ?thesis
    by (auto simp: subscriptionInvariant_def onSnapshotNext_def)
next
  case (SnapshotError err)
  assume "subscriptionInvariant adminEmail s"
  with SnapshotError show ?thesis
    by (auto simp: subscriptionInvariant_def onSnapshotError_def)
next
  case (UpdateStatus st outcome)
  assume "subscriptionInvariant adminEmail s"
  with UpdateStatus show ?thesis
    by (auto simp: subscriptionInvariant_def updateStatus_def split: option.splits)
next
  case ToastTimeout
  assume "subscriptionInvariant adminEmail s"
  with ToastTimeout show ?thesis
    by (simp add: subscriptionInvariant_def)
qed

lemma invariant_foldl:
  "subscriptionInvariant adminEmail s \<Longrightarrow>
     subscriptionInvariant adminEmail (foldl (step adminEmail) s es)"
  by (induction es arbitrary: s) (simp_all add: invariant_step)

lemma invariant_run: "subscriptionInvariant adminEmail (run adminEmail es)"
  by (simp add: run_def invariant_foldl invariant_mounted)

lemma isAllowed_matches:
  "isAllowed adminEmail u \<Longrightarrow>
     \<exists>usr e a. u = Some usr \<and> email usr = Some e \<and> adminEmail = Some a
       \<and> e \<noteq> [] \<and> a \<noteq> [] \<and> toLowerCase e = toLowerCase a"
  by (auto simp: isAllowed_def split: option.splits if_splits)

lemma gate_allowed_iff:
  "(gateOf adminEmail s = AUTHENTICATED_ALLOWED)
     = (authReady s \<and> isAllowed adminEmail (authUser s))"
  by (auto simp: gateOf_def isAllowed_def)

lemma lower_example_user: "toLowerCase ''Admin@Monky.fun'' = ''admin@monky.fun''"
  by (simp add: toLowerCase_def lowerChar_def char_of_eq_iff)

lemma lower_example_admin: "toLowerCase ''admin@monky.fun'' = ''admin@monky.fun''"
  by (simp add: toLowerCase_def lowerChar_def char_of_eq_iff)

lemma run_exampleAdminLogin:
  "run exampleAdminEmail exampleAdminLogin =
     \<lparr>authUser = Some \<lparr>email = Some ''Admin@Monky.fun''\<rparr>, authReady = True,
      applications = filter (\<lambda>r. statusOf r = JStr ''PENDING'') (map rowOf exampleDocs),
      actionError = None, toast = None, listening = True\<rparr>"
  by (simp add: run_def exampleAdminLogin_def mounted_def subscriptionEffect_def
        authStateChanged_def isAllowed_def exampleAdminEmail_def lower_example_user
        lower_example_admin onSnapshotNext_def)

lemma pending_exampleDocs:
  "filter (\<lambda>r. statusOf r = JStr ''PENDING'') (map rowOf exampleDocs)
     = [rowOf (exampleDocs ! 0), rowOf (exampleDocs ! 2)]"
  by (simp add: exampleDocs_def statusOf_def field_def rowOf_def orElse_def map_add_def)

text \<open>
  Claim C5. In every state the mounted component reaches, whatever the events, a
  snapshot listener is live exactly in the state \<open>AUTHENTICATED_ALLOWED\<close>, and the
  effect issues one exactly there; in \<open>AUTH_PENDING\<close>, \<open>UNAUTHENTICATED\<close> and
  \<open>AUTHENTICATED_DENIED\<close> no listener is live and the queue cell is empty; in the
  allowed state a session is present whose email equals the configured email up to
  letter case.
\<close>

theorem subscription_only_when_allowed:
  "(listening (subscriptionEffect adminEmail s) \<longleftrightarrow> gateOf adminEmail s = AUTHENTICATED_ALLOWED)
   \<and> (listening (run adminEmail es)
        \<longleftrightarrow> gateOf adminEmail (run adminEmail es) = AUTHENTICATED_ALLOWED)
   \<and> (gateOf adminEmail (run adminEmail es)
          \<in> {AUTH_PENDING, UNAUTHENTICATED, AUTHENTICATED_DENIED}
        \<longrightarrow> \<not> listening (run adminEmail es) \<and> applications (run adminEmail es) = [])
   \<and> (gateOf adminEmail (run adminEmail es) = AUTHENTICATED_ALLOWED
        \<longrightarrow> (\<exists>usr e a. authUser (run adminEmail es) = Some usr \<and> email usr = Some e
               \<and> adminEmail = Some a \<and> toLowerCase e = toLowerCase a))"
proof -
  let ?r = "run adminEmail es"
  have inv: "subscriptionInvariant adminEmail ?r" by (rule invariant_run)
  have a: "listening (subscriptionEffect adminEmail s)
             \<longleftrightarrow> gateOf adminEmail s = AUTHENTICATED_ALLOWED"
    by (simp add: gate_allowed_iff subscriptionEffect_def)
  have b: "listening ?r \<longleftrightarrow> gateOf adminEmail ?r = AUTHENTICATED_ALLOWED"
    using inv by (simp add: gate_allowed_iff subscriptionInvariant_def)
  have c: "gateOf adminEmail ?r \<in> {AUTH_PENDING, UNAUTHENTICATED, AUTHENTICATED_DENIED}
        \<longrightarrow> \<not> listening ?r \<and> applications ?r = []"
  proof
    assume "gateOf adminEmail ?r \<in> {AUTH_PENDING, UNAUTHENTICATED, AUTHENTICATED_DENIED}"
    then have "gateOf adminEmail ?r \<noteq> AUTHENTICATED_ALLOWED" by auto
    then have "\<not> (authReady ?r \<and> isAllowed adminEmail (authUser ?r))"
      by (simp add: gate_allowed_iff)
    with inv show "\<not> listening ?r \<and> applications ?r = []"
      by (auto simp: subscriptionInvariant_def)
  qed
  have d: "gateOf adminEmail ?r = AUTHENTICATED_ALLOWED
        \<longrightarrow> (\<exists>usr e a. authUser ?r = Some usr \<and> email usr = Some e
               \<and> adminEmail = Some a \<and> toLowerCase e = toLowerCase a)"
  proof
    assume "gateOf adminEmail ?r = AUTHENTICATED_ALLOWED"
    then have "isAllowed adminEmail (authUser ?r)" by (simp add: gate_allowed_iff)
    from isAllowed_matches [OF this]
    show "\<exists>usr e a. authUser ?r = Some usr \<and> email usr = Some e
               \<and> adminEmail = Some a \<and> toLowerCase e = toLowerCase a" by blast
  qed
  from a b c d show ?thesis by blast
qed

text \<open>The authorized moderator signs in with a differently cased email, receives a
  snapshot and signs out: the listener is live while allowed, and after the sign-out
  the gate is \<open>UNAUTHENTICATED\<close>, no listener is live and the queue is empty.\<close>

theorem subscription_only_when_allowed_witness:
  "gateOf exampleAdminEmail (run exampleAdminEmail exampleAdminLogin) = AUTHENTICATED_ALLOWED
   \<and> listening (run exampleAdminEmail exampleAdminLogin)
   \<and> gateOf exampleAdminEmail
        (run exampleAdminEmail (exampleAdminLogin @ [AuthStateChanged None])) = UNAUTHENTICATED
   \<and> \<not> listening (run exampleAdminEmail (exampleAdminLogin @ [AuthStateChanged None]))
   \<and> applications (run exampleAdminEmail (exampleAdminLogin @ [AuthStateChanged None])) = []"
proof -
  have g1: "gateOf exampleAdminEmail (run exampleAdminEmail exampleAdminLogin)
              = AUTHENTICATED_ALLOWED"
    unfolding run_exampleAdminLogin
    by (simp add: gateOf_def isAllowed_def exampleAdminEmail_def lower_example_user
          lower_example_admin)
  have r2: "run exampleAdminEmail (exampleAdminLogin @ [AuthStateChanged None])
             = authStateChanged exampleAdminEmail None (run exampleAdminEmail exampleAdminLogin)"
    by (simp add: run_def)
  have g2: "gateOf exampleAdminEmail
              (run exampleAdminEmail (exampleAdminLogin @ [AuthStateChanged None]))
              = UNAUTHENTICATED"
    unfolding r2 run_exampleAdminLogin
    by (simp add: gateOf_def authStateChanged_def subscriptionEffect_def isAllowed_def
          exampleAdminEmail_def lower_example_user lower_example_admin)
  from subscription_only_when_allowed [of exampleAdminEmail exampleListening exampleAdminLogin]
       subscription_only_when_allowed
         [of exampleAdminEmail exampleListening "exampleAdminLogin @ [AuthStateChanged None]"]
       g1 g2
  show ?thesis by simp
qed

text \<open>
  Claim C10. When the configured moderator email is absent or empty, the access check
  denies every session, whatever its email (an empty one included): no state is
  \<open>AUTHENTICATED_ALLOWED\<close>, and no run of the component ever holds a listener.
\<close>

theorem no_admin_email_denies_all:
  assumes "adminEmail = None \<or> adminEmail = Some []"
  shows "\<not> isAllowed adminEmail (Some usr)
         \<and> gateOf adminEmail s \<noteq> AUTHENTICATED_ALLOWED
         \<and> \<not> listening (run adminEmail es)"
proof -
  have na: "\<not> isAllowed adminEmail u" for u
    using assms by (auto simp: isAllowed_def split: option.splits)
  have "subscriptionInvariant adminEmail (run adminEmail es)" by (rule invariant_run)
  then have "\<not> listening (run adminEmail es)"
    by (simp add: subscriptionInvariant_def na)
  moreover have "gateOf adminEmail s \<noteq> AUTHENTICATED_ALLOWED"
    by (simp add: gate_allowed_iff na)
  ultimately show ?thesis using na by simp
qed

text \<open>With an empty configured email, a session with an empty email is denied, and
  so is the session of the example moderator.\<close>

theorem no_admin_email_denies_all_witness:
  "\<not> isAllowed (Some []) (Some \<lparr>email = Some []\<rparr>)
   \<and> gateOf (Some []) exampleListening \<noteq> AUTHENTICATED_ALLOWED
   \<and> \<not> listening (run (Some []) exampleAdminLogin)"
  using no_admin_email_denies_all
          [of "Some []" "\<lparr>email = Some []\<rparr>" exampleListening exampleAdminLogin]
  by simp

section \<open>AdminScreen: the moderation queue\<close>

lemma statusOf_typed:
  "field r ''status'' \<in> {JStr ''PENDING'', JStr ''APPROVED'', JStr ''REJECTED''} \<Longrightarrow>
     statusOf r = field r ''status''"
  by (auto simp: statusOf_def orElse_def)

lemma falsy_values: "(\<not> truthy v) = (v \<in> {JUndefined, JNull, JBool False, JNum 0, JStr []})"
  by (cases v) auto

text \<open>The filter of the snapshot callback, in terms of the status field.\<close>

lemma statusOf_pending_iff:
  "(statusOf r = JStr ''PENDING'')
     = (field r ''status''
          \<in> {JStr ''PENDING'', JUndefined, JNull, JBool False, JNum 0, JStr []})"
proof (cases "truthy (field r ''status'')")
  case True
  then have "field r ''status'' \<notin> {JUndefined, JNull, JBool False, JNum 0, JStr []}"
    using falsy_values [of "field r ''status''"] by blast
  with True show ?thesis by (auto simp: statusOf_def orElse_def)
next
  case False
  then have "field r ''status'' \<in> {JUndefined, JNull, JBool False, JNum 0, JStr []}"
    using falsy_values [of "field r ''status''"] by blast
  with False show ?thesis by (auto simp: statusOf_def orElse_def)
qed

lemma pending_two:
  "filter (\<lambda>r. field r ''status'' = JStr ''PENDING'') (map rowOf (take 2 exampleDocs))
     = [rowOf (exampleDocs ! 0)]"
  by (simp add: exampleDocs_def field_def rowOf_def map_add_def)

lemma typed_two:
  "\<forall>d \<in> set (take 2 exampleDocs). field (rowOf d) ''status''
              \<in> {JStr ''PENDING'', JStr ''APPROVED'', JStr ''REJECTED''}"
  by (simp add: exampleDocs_def field_def rowOf_def map_add_def)

text \<open>
  Claim C4, as the code has it. Every snapshot delivered to the live listener
  replaces the queue by exactly the rows of the delivered window, in its order, whose
  status field is \<open>PENDING\<close> or falsy (missing, null, false, 0 or the empty string):
  no row whose status field is \<open>APPROVED\<close> or \<open>REJECTED\<close> is in the queue, and no row
  of the window whose status field is \<open>PENDING\<close> is left out. When every document of
  the window carries one of the three statuses, the queue is exactly the rows whose
  status field is \<open>PENDING\<close>.
\<close>

theorem snapshot_queue_is_pending_or_unset_rows:
  assumes "listening s"
  shows "applications (step adminEmail s (SnapshotNext docs))
           = filter (\<lambda>r. field r ''status''
                 \<in> {JStr ''PENDING'', JUndefined, JNull, JBool False, JNum 0, JStr []})
               (map rowOf docs)
     \<and> set (applications (step adminEmail s (SnapshotNext docs)))
           = {r \<in> rowOf ` set docs. field r ''status''
                 \<in> {JStr ''PENDING'', JUndefined, JNull, JBool False, JNum 0, JStr []}}
     \<and> (\<forall>r \<in> set (applications (step adminEmail s (SnapshotNext docs))).
           field r ''status'' \<noteq> JStr ''APPROVED'' \<and> field r ''status'' \<noteq> JStr ''REJECTED'')
     \<and> (\<forall>d \<in> set docs. field (rowOf d) ''status'' = JStr ''PENDING''
           \<longrightarrow> rowOf d \<in> set (applications (step adminEmail s (SnapshotNext docs))))
     \<and> ((\<forall>d \<in> set docs. field (rowOf d) ''status''
              \<in> {JStr ''PENDING'', JStr ''APPROVED'', JStr ''REJECTED''})
           \<longrightarrow> applications (step adminEmail s (SnapshotNext docs))
                 = filter (\<lambda>r. field r ''status'' = JStr ''PENDING'') (map rowOf docs))"
proof -
  let ?P = "\<lambda>r. field r ''status''
                 \<in> {JStr ''PENDING'', JUndefined, JNull, JBool False, JNum 0, JStr []}"
  have eq0: "applications (step adminEmail s (SnapshotNext docs))
           = filter (\<lambda>r. statusOf r = JStr ''PENDING'') (map rowOf docs)"
    using assms by (simp add: onSnapshotNext_def)
  have eq: "applications (step adminEmail s (SnapshotNext docs)) = filter ?P (map rowOf docs)"
    unfolding eq0 by (simp only: statusOf_pending_iff)
  have typed: "(\<forall>d \<in> set docs. field (rowOf d) ''status''
              \<in> {JStr ''PENDING'', JStr ''APPROVED'', JStr ''REJECTED''})
           \<longrightarrow> filter (\<lambda>r. statusOf r = JStr ''PENDING'') (map rowOf docs)
                 = filter (\<lambda>r. field r ''status'' = JStr ''PENDING'') (map rowOf docs)"
  proof
    assume t: "\<forall>d \<in> set docs. field (rowOf d) ''status''
              \<in> {JStr ''PENDING'', JStr ''APPROVED'', JStr ''REJECTED''}"
    show "filter (\<lambda>r. statusOf r = JStr ''PENDING'') (map rowOf docs)
                 = filter (\<lambda>r. field r ''status'' = JStr ''PENDING'') (map rowOf docs)"
    proof (rule filter_cong [OF refl])
      fix r assume "r \<in> set (map rowOf docs)"
      then obtain d where "d \<in> set docs" and "r = rowOf d" by auto
      with t have "field r ''status'' \<in> {JStr ''PENDING'', JStr ''APPROVED'', JStr ''REJECTED''}"
        by blast
      then show "(statusOf r = JStr ''PENDING'') = (field r ''status'' = JStr ''PENDING'')"
        by (simp only: statusOf_typed)
    qed
  qed
  have rest: "set (filter ?P (map rowOf docs)) = {r \<in> rowOf ` set docs. ?P r}
     \<and> (\<forall>r \<in> set (filter ?P (map rowOf docs)).
           field r ''status'' \<noteq> JStr ''APPROVED'' \<and> field r ''status'' \<noteq> JStr ''REJECTED'')
     \<and> (\<forall>d \<in> set docs. field (rowOf d) ''status'' = JStr ''PENDING''
           \<longrightarrow> rowOf d \<in> set (filter ?P (map rowOf docs)))"
    by auto
  have typed': "(\<forall>d \<in> set docs. field (rowOf d) ''status''
              \<in> {JStr ''PENDING'', JStr ''APPROVED'', JStr ''REJECTED''})
           \<longrightarrow> applications (step adminEmail s (SnapshotNext docs))
                 = filter (\<lambda>r. field r ''status'' = JStr ''PENDING'') (map rowOf docs)"
    using typed unfolding eq0 .
  from rest typed' show ?thesis unfolding eq by blast
qed

text \<open>A window of four documents (pending, approved, without status, rejected)
  delivered over a stale queue: the queue becomes the first and the third row. The
  window of the first two documents leaves the first row only.\<close>

theorem snapshot_queue_is_pending_or_unset_rows_witness:
  "listening exampleListening
   \<and> applications (step exampleAdminEmail exampleListening (SnapshotNext exampleDocs))
       = [rowOf (exampleDocs ! 0), rowOf (exampleDocs ! 2)]
   \<and> applications (step exampleAdminEmail exampleListening (SnapshotNext (take 2 exampleDocs)))
       = [rowOf (exampleDocs ! 0)]"
proof -
  have l: "listening exampleListening" by (simp add: exampleListening_def)
  have f: "filter (\<lambda>r. field r ''status''
                 \<in> {JStr ''PENDING'', JUndefined, JNull, JBool False, JNum 0, JStr []})
               (map rowOf exampleDocs)
           = [rowOf (exampleDocs ! 0), rowOf (exampleDocs ! 2)]"
    by (simp add: exampleDocs_def field_def rowOf_def map_add_def)
  from snapshot_queue_is_pending_or_unset_rows [OF l, of exampleAdminEmail exampleDocs]
  have a: "applications (step exampleAdminEmail exampleListening (SnapshotNext exampleDocs))
       = [rowOf (exampleDocs ! 0), rowOf (exampleDocs ! 2)]"
    unfolding f by blast
  from snapshot_queue_is_pending_or_unset_rows [OF l, of exampleAdminEmail "take 2 exampleDocs"]
       typed_two
  have b: "applications (step exampleAdminEmail exampleListening
             (SnapshotNext (take 2 exampleDocs)))
       = filter (\<lambda>r. field r ''status'' = JStr ''PENDING'') (map rowOf (take 2 exampleDocs))"
    by blast
  from l a b show ?thesis by (simp only: pending_two simp_thms)
qed

text \<open>A window of one document whose status field is null: the row is in the queue,
  and its status is not \<open>PENDING\<close>.\<close>

theorem snapshot_queue_keeps_null_status:
  "listening exampleListening
   \<and> applications (step exampleAdminEmail exampleListening (SnapshotNext exampleNullStatus))
       = [rowOf (exampleNullStatus ! 0)]
   \<and> field (rowOf (exampleNullStatus ! 0)) ''status'' = JNull
   \<and> field (rowOf (exampleNullStatus ! 0)) ''status'' \<noteq> JStr ''PENDING''"
  by (simp add: exampleListening_def exampleNullStatus_def onSnapshotNext_def statusOf_def
        field_def rowOf_def orElse_def map_add_def)

text \<open>
  Claim C9. An error delivered to the live listener empties the queue, whatever it
  held, and sets the displayed error to a non-empty description: the message of the
  error when it has one.
\<close>

theorem subscription_error_empties_queue:
  assumes "listening s"
  shows "applications (step adminEmail s (SnapshotError err)) = []
     \<and> (\<exists>m. actionError (step adminEmail s (SnapshotError err)) = Some m \<and> m \<noteq> []
            \<and> (\<forall>e. err = Some e \<and> message e \<noteq> [] \<longrightarrow> m = message e))"
  using assms by (auto simp: onSnapshotError_def split: option.splits)

text \<open>A listener with one row in its queue receives a permission error.\<close>

theorem subscription_error_empties_queue_witness:
  "listening exampleListening \<and> applications exampleListening \<noteq> []
   \<and> applications (step exampleAdminEmail exampleListening
        (SnapshotError (Some \<lparr>message = ''permission-denied''\<rparr>))) = []
   \<and> actionError (step exampleAdminEmail exampleListening
        (SnapshotError (Some \<lparr>message = ''permission-denied''\<rparr>))) = Some ''permission-denied''"
proof -
  have l: "listening exampleListening" by (simp add: exampleListening_def)
  have n: "applications exampleListening \<noteq> []" by (simp add: exampleListening_def)
  from subscription_error_empties_queue
         [OF l, of exampleAdminEmail "Some \<lparr>message = ''permission-denied''\<rparr>"] l n
  show ?thesis by auto
qed

end
